theory Spec2Isabelle
  imports Main "HOL-Library.Word" "HOL-Library.Sublist"
begin

section \<open>MikrotikMonitor: data model\<close>

text \<open>
  The Go structs of \<^verbatim>\<open>MikrotikMonitor.go\<close> as records. Field names are the source's;
  where two structs use the same field name the record field carries the struct as a
  prefix (\<open>auth_Active\<close> is \<^verbatim>\<open>Authentication.Active\<close>, \<open>snmp_Version\<close> is
  \<^verbatim>\<open>SNMP.Version\<close>). Go strings are byte sequences, here \<open>string\<close>.
\<close>

record Authentication =
  auth_Active :: bool
  auth_Protocol :: string
  auth_Passphrase :: string

record Privacy =
  priv_Active :: bool
  priv_Protocol :: string
  priv_Passphrase :: string

record SNMP =
  snmp_Version :: string
  snmp_Community :: string
  snmp_Authentication :: Authentication
  snmp_Privacy :: Privacy

record Version =
  RouterOS :: string
  Bootloader :: string
  Latest :: string

record Device =
  Reached :: bool
  Host :: string
  Model :: string
  Name :: string
  SNMP :: SNMP
  Version :: Version

section \<open>The gosnmp session handle\<close>

text \<open>
  The parts of the gosnmp library the program touches. The algorithm identifiers are
  gosnmp's \<^verbatim>\<open>uint8\<close> constants; the value 0 is the zero value of the type, which names
  no algorithm.
\<close>

type_synonym SnmpV3AuthProtocol = "8 word"
type_synonym SnmpV3PrivProtocol = "8 word"

definition NoAuth :: SnmpV3AuthProtocol where "NoAuth = 1"
definition MD5 :: SnmpV3AuthProtocol where "MD5 = 2"
definition SHA :: SnmpV3AuthProtocol where "SHA = 3"

definition NoPriv :: SnmpV3PrivProtocol where "NoPriv = 1"
definition DES :: SnmpV3PrivProtocol where "DES = 2"
definition AES :: SnmpV3PrivProtocol where "AES = 3"

datatype SnmpVersion = Version1 | Version2c | Version3

datatype SnmpV3MsgFlags = NoAuthNoPriv | AuthNoPriv | AuthPriv | Reportable

datatype SnmpV3SecurityModel = SecurityModelUnset | UserSecurityModel

record UsmSecurityParameters =
  UserName :: string
  AuthenticationProtocol :: SnmpV3AuthProtocol
  AuthenticationPassphrase :: string
  PrivacyProtocol :: SnmpV3PrivProtocol
  PrivacyPassphrase :: string

text \<open>
  \<^verbatim>\<open>gosnmp.Default\<close>, the one session handle of the process. \<open>g_SecurityParameters\<close>
  is the pointer field: \<open>None\<close> is nil. \<open>g_Timeout\<close> is a \<^verbatim>\<open>time.Duration\<close> in
  nanoseconds.
\<close>

record GoSNMP =
  g_Target :: string
  g_Community :: string
  g_Version :: SnmpVersion
  g_Timeout :: int
  g_SecurityModel :: SnmpV3SecurityModel
  g_MsgFlags :: SnmpV3MsgFlags
  g_SecurityParameters :: "UsmSecurityParameters option"

text \<open>The handle as the library initialises it, before any device is configured.\<close>

definition Default :: GoSNMP where
  "Default = \<lparr> g_Target = '''', g_Community = ''public'', g_Version = Version2c,
     g_Timeout = 2 * 1000000000, g_SecurityModel = SecurityModelUnset,
     g_MsgFlags = NoAuthNoPriv, g_SecurityParameters = None \<rparr>"

section \<open>GetProtocol\<close>

definition auth_GetProtocol :: "Authentication \<Rightarrow> SnmpV3AuthProtocol" where
  "auth_GetProtocol auth =
     (if auth_Protocol auth = ''SHA1'' then SHA
      else if auth_Protocol auth = ''MD5'' then MD5
      else SHA)"

definition priv_GetProtocol :: "Privacy \<Rightarrow> SnmpV3PrivProtocol" where
  "priv_GetProtocol priv =
     (if priv_Protocol priv = ''DES'' then DES
      else if priv_Protocol priv = ''AES'' then AES
      else DES)"

section \<open>SNMPConfigure\<close>

text \<open>
  \<^verbatim>\<open>SNMPConfigure\<close> mutates \<^verbatim>\<open>gosnmp.Default\<close>; the model takes the handle and returns
  it updated. The \<^verbatim>\<open>switch\<close> on the version has no default branch, and the block that
  builds the security parameters stands after the switch.
\<close>

definition usmZero :: UsmSecurityParameters where
  "usmZero = \<lparr> UserName = '''', AuthenticationProtocol = 0, AuthenticationPassphrase = '''',
     PrivacyProtocol = 0, PrivacyPassphrase = '''' \<rparr>"

definition configureVersion :: "string \<Rightarrow> GoSNMP \<Rightarrow> GoSNMP" where
  "configureVersion v g =
     (if v = ''2c'' then g\<lparr> g_Version := Version2c \<rparr>
      else if v = ''3'' then
        g\<lparr> g_Version := Version3, g_SecurityModel := UserSecurityModel, g_MsgFlags := AuthPriv \<rparr>
      else g)"

definition buildUsm :: "SNMP \<Rightarrow> UsmSecurityParameters" where
  "buildUsm s =
     (let p0 = usmZero\<lparr> UserName := snmp_Community s \<rparr>;
          p1 = (if auth_Active (snmp_Authentication s)
                then p0\<lparr> AuthenticationProtocol := auth_GetProtocol (snmp_Authentication s),
                         AuthenticationPassphrase := auth_Passphrase (snmp_Authentication s) \<rparr>
                else p0);
          p2 = (if priv_Active (snmp_Privacy s)
                then p1\<lparr> PrivacyProtocol := priv_GetProtocol (snmp_Privacy s),
                         PrivacyPassphrase := priv_Passphrase (snmp_Privacy s) \<rparr>
                else p1)
      in p2)"

definition SNMPConfigure :: "Device \<Rightarrow> GoSNMP \<Rightarrow> GoSNMP" where
  "SNMPConfigure device g =
     (let g1 = g\<lparr> g_Timeout := 3 * 1000000000, g_Target := Host device,
                   g_Community := snmp_Community (SNMP device) \<rparr>;
          g2 = configureVersion (snmp_Version (SNMP device)) g1
      in if auth_Active (snmp_Authentication (SNMP device)) \<or> priv_Active (snmp_Privacy (SNMP device))
         then g2\<lparr> g_SecurityParameters := Some (buildUsm (SNMP device)) \<rparr>
         else g2)"

section \<open>strings.Replace and strings.Contains\<close>

text \<open>
  \<^verbatim>\<open>strings.Replace(s, old, new, n)\<close> for a non-empty \<open>old\<close> and \<open>n \<ge> 0\<close>: scanning from
  the left, the first \<open>n\<close> non-overlapping occurrences of \<open>old\<close> are replaced by \<open>new\<close>.
  The program calls it with the literal RouterOS for \<open>old\<close>, the empty string for
  \<open>new\<close> and \<open>n = 1\<close>.
\<close>

fun strings_Replace :: "string \<Rightarrow> string \<Rightarrow> string \<Rightarrow> nat \<Rightarrow> string" where
  "strings_Replace s old new 0 = s"
| "strings_Replace [] old new (Suc n) = []"
| "strings_Replace (c # cs) old new (Suc n) =
     (if prefix old (c # cs) then new @ strings_Replace (drop (length old) (c # cs)) old new n
      else c # strings_Replace cs old new (Suc n))"

fun strings_Contains :: "string \<Rightarrow> string \<Rightarrow> bool" where
  "strings_Contains [] sub = (sub = [])"
| "strings_Contains (c # cs) sub = (prefix sub (c # cs) \<or> strings_Contains cs sub)"

section \<open>GetDevice\<close>

text \<open>
  A variable of a response carries a value of dynamic type (\<^verbatim>\<open>interface{}\<close>). The
  constructors are the dynamic types gosnmp produces: \<^verbatim>\<open>[]byte\<close> for an octet string,
  integers, \<^verbatim>\<open>string\<close> for an object identifier or an address, and \<^verbatim>\<open>nil\<close> for a
  null, no-such-object or no-such-instance value.
\<close>

datatype Value = Bytes string | IntVal int | UintVal nat | StrVal string | NilVal

record SnmpPDU =
  pdu_Name :: string
  pdu_Value :: Value

text \<open>The type assertion \<^verbatim>\<open>variable.Value.([]byte)\<close>: \<open>None\<close> is the run-time panic.\<close>

fun assertBytes :: "Value \<Rightarrow> string option" where
  "assertBytes (Bytes b) = Some b"
| "assertBytes _ = None"

text \<open>
  What the library answers during one poll: the error of \<^verbatim>\<open>Connect\<close> (\<open>None\<close> is nil),
  the result of \<^verbatim>\<open>Get\<close> (\<open>Inl\<close> the error, \<open>Inr\<close> the variables of the packet)
  and the error of \<^verbatim>\<open>Conn.Close\<close>. Errors are their message texts.
\<close>

record Net =
  connectErr :: "string option"
  getResult :: "string + SnmpPDU list"
  closeErr :: "string option"

text \<open>What a poll does to the outside, in order.\<close>

datatype Event = Connect | Get "string list" | Close | Println string | LogPrintf string

text \<open>How the call ends: it returns its \<^verbatim>\<open>error\<close> (\<open>None\<close> is nil) or it panics.\<close>

datatype Outcome = Returned "string option" | Panicked

record PollResult =
  outcome :: Outcome
  device :: Device
  handle :: GoSNMP
  trace :: "Event list"

definition oids :: "string list" where
  "oids = [''.1.3.6.1.4.1.14988.1.1.4.4.0'', ''.1.3.6.1.4.1.14988.1.1.7.4.0'',
           ''.1.3.6.1.4.1.14988.1.1.7.7.0'', ''.1.3.6.1.2.1.1.1.0'', ''.1.3.6.1.2.1.1.5.0'']"

text \<open>
  The body of the \<^verbatim>\<open>switch\<close> for one variable. Every branch, the default one too,
  asserts the value to be a byte slice before it does anything else. The result is the
  record and the line printed, if any.
\<close>

definition mapVariable :: "SnmpPDU \<Rightarrow> Device \<Rightarrow> (Device \<times> string list) option" where
  "mapVariable variable dev =
     (case assertBytes (pdu_Value variable) of
        None \<Rightarrow> None
      | Some b \<Rightarrow>
          if pdu_Name variable = ''.1.3.6.1.4.1.14988.1.1.4.4.0'' then
            Some (dev\<lparr> Version := (Version dev)\<lparr> RouterOS := b \<rparr> \<rparr>, [])
          else if pdu_Name variable = ''.1.3.6.1.4.1.14988.1.1.7.7.0'' then
            Some (dev\<lparr> Version := (Version dev)\<lparr> Latest := b \<rparr> \<rparr>, [])
          else if pdu_Name variable = ''.1.3.6.1.4.1.14988.1.1.7.4.0'' then
            Some (dev\<lparr> Version := (Version dev)\<lparr> Bootloader := b \<rparr> \<rparr>, [])
          else if pdu_Name variable = ''.1.3.6.1.2.1.1.1.0'' then
            Some (dev\<lparr> Model := strings_Replace b ''RouterOS'' [] 1 \<rparr>, [])
          else if pdu_Name variable = ''.1.3.6.1.2.1.1.5.0'' then
            Some (dev\<lparr> Name := b \<rparr>, [])
          else
            Some (dev, [pdu_Name variable @ '' : '' @ b @ [CHR 0x0A]]))"

text \<open>
  The \<^verbatim>\<open>for ... range result.Variables\<close> loop. The flag of the result is \<open>False\<close> when
  an assertion panicked; the record then is as the loop left it.
\<close>

fun mapVariables :: "SnmpPDU list \<Rightarrow> Device \<Rightarrow> string list \<Rightarrow> bool \<times> Device \<times> string list" where
  "mapVariables [] dev out = (True, dev, out)"
| "mapVariables (v # vs) dev out =
     (case mapVariable v dev of
        None \<Rightarrow> (False, dev, out)
      | Some (dev', ls) \<Rightarrow> mapVariables vs dev' (out @ ls))"

text \<open>The deferred close: a failure is logged and changes nothing else.\<close>

definition closeConn :: "Net \<Rightarrow> Event list" where
  "closeConn net =
     (case closeErr net of
        None \<Rightarrow> [Close]
      | Some e \<Rightarrow> [Close, LogPrintf (''Error closing connection: '' @ e @ [CHR 0x0A])])"

definition GetDevice :: "Net \<Rightarrow> Device \<Rightarrow> GoSNMP \<Rightarrow> PollResult" where
  "GetDevice net dev g =
     (let g1 = SNMPConfigure dev g in
      case connectErr net of
        Some err \<Rightarrow>
          \<lparr> outcome = Returned (Some (''fehler beim Verbinden: '' @ err)),
            device = dev, handle = g1, trace = [Connect] \<rparr>
      | None \<Rightarrow>
          (case getResult net of
             Inl err2 \<Rightarrow>
               \<lparr> outcome = Returned (Some (Host dev @ '' Fehler bei der SNMP-Anfrage: '' @ err2)),
                 device = dev, handle = g1, trace = [Connect, Get oids] @ closeConn net \<rparr>
           | Inr variables \<Rightarrow>
               (let dev1 = dev\<lparr> Reached := True \<rparr>;
                    r = (if length variables > 0 then mapVariables variables dev1 []
                         else (True, dev1, []))
                in \<lparr> outcome = (if fst r then Returned None else Panicked),
                     device = fst (snd r), handle = g1,
                     trace = [Connect, Get oids] @ map Println (snd (snd r)) @ closeConn net \<rparr>)))"

section \<open>ResultJson\<close>

text \<open>
  \<^verbatim>\<open>json.Marshal\<close> of the standard library, for the types of this program. A string is
  written between double quotes. A byte below \<open>0x80\<close> that is a control character, a
  double quote, a backslash or one of \<open><\<close>, \<open>>\<close>, \<open>&\<close> is escaped (backspace and form
  feed by their short escapes, as the current library does). A byte sequence that is
  not UTF-8 becomes the escape of the replacement character \<open>U+FFFD\<close>, and the line and
  paragraph separators \<open>U+2028\<close> and \<open>U+2029\<close> are escaped.
\<close>

definition hex :: "nat \<Rightarrow> char" where
  "hex n = ''0123456789abcdef'' ! (n mod 16)"

definition RuneError :: nat where "RuneError = 0xFFFD"

text \<open>
  \<^verbatim>\<open>utf8.DecodeRuneInString\<close> on bytes whose first is \<open>0x80\<close> or above: the rune and
  the number of bytes it takes; an invalid or short encoding is \<open>(RuneError, 1)\<close>.
  \<open>lo\<close> and \<open>hi\<close> bound the second byte, as the library's table of accepted ranges does.
\<close>

definition isCont :: "nat \<Rightarrow> bool" where
  "isCont b = (0x80 \<le> b \<and> b \<le> 0xBF)"

definition decode2 :: "nat \<Rightarrow> nat \<Rightarrow> nat \<Rightarrow> nat list \<Rightarrow> nat \<times> nat" where
  "decode2 s0 lo hi rest =
     (case rest of
        s1 # _ \<Rightarrow> if s1 < lo \<or> hi < s1 then (RuneError, 1)
                  else ((s0 mod 32) * 64 + s1 mod 64, 2)
      | _ \<Rightarrow> (RuneError, 1))"

definition decode3 :: "nat \<Rightarrow> nat \<Rightarrow> nat \<Rightarrow> nat list \<Rightarrow> nat \<times> nat" where
  "decode3 s0 lo hi rest =
     (case rest of
        s1 # s2 # _ \<Rightarrow>
          if s1 < lo \<or> hi < s1 then (RuneError, 1)
          else if \<not> isCont s2 then (RuneError, 1)
          else ((s0 mod 16) * 4096 + (s1 mod 64) * 64 + s2 mod 64, 3)
      | _ \<Rightarrow> (RuneError, 1))"

definition decode4 :: "nat \<Rightarrow> nat \<Rightarrow> nat \<Rightarrow> nat list \<Rightarrow> nat \<times> nat" where
  "decode4 s0 lo hi rest =
     (case rest of
        s1 # s2 # s3 # _ \<Rightarrow>
          if s1 < lo \<or> hi < s1 then (RuneError, 1)
          else if \<not> isCont s2 then (RuneError, 1)
          else if \<not> isCont s3 then (RuneError, 1)
          else ((s0 mod 8) * 262144 + (s1 mod 64) * 4096 + (s2 mod 64) * 64 + s3 mod 64, 4)
      | _ \<Rightarrow> (RuneError, 1))"

definition DecodeRune :: "nat \<Rightarrow> nat list \<Rightarrow> nat \<times> nat" where
  "DecodeRune s0 rest =
     (if s0 < 0xC2 then (RuneError, 1)
      else if s0 \<le> 0xDF then decode2 s0 0x80 0xBF rest
      else if s0 = 0xE0 then decode3 s0 0xA0 0xBF rest
      else if s0 = 0xED then decode3 s0 0x80 0x9F rest
      else if s0 \<le> 0xEF then decode3 s0 0x80 0xBF rest
      else if s0 = 0xF0 then decode4 s0 0x90 0xBF rest
      else if s0 \<le> 0xF3 then decode4 s0 0x80 0xBF rest
      else if s0 = 0xF4 then decode4 s0 0x80 0x8F rest
      else (RuneError, 1))"

text \<open>The bytes below \<open>0x80\<close> that are written as they are (the library's \<open>htmlSafeSet\<close>).\<close>

definition htmlSafe :: "char \<Rightarrow> bool" where
  "htmlSafe c = (0x20 \<le> (of_char c :: nat) \<and>
     c \<notin> {CHR 0x22, CHR 0x5C, CHR ''<'', CHR ''>'', CHR ''&''})"

definition escapeByte :: "char \<Rightarrow> string" where
  "escapeByte c =
     (if c = CHR 0x5C \<or> c = CHR 0x22 then [CHR 0x5C, c]
      else if c = CHR 0x08 then [CHR 0x5C, CHR ''b'']
      else if c = CHR 0x0C then [CHR 0x5C, CHR ''f'']
      else if c = CHR 0x0A then [CHR 0x5C, CHR ''n'']
      else if c = CHR 0x0D then [CHR 0x5C, CHR ''r'']
      else if c = CHR 0x09 then [CHR 0x5C, CHR ''t'']
      else [CHR 0x5C, CHR ''u'', CHR ''0'', CHR ''0'', hex (of_char c div 16), hex (of_char c mod 16)])"

text \<open>The body of a string literal: the loop of the library's \<^verbatim>\<open>appendString\<close>.\<close>

fun escapeString :: "string \<Rightarrow> string" where
  "escapeString [] = []"
| "escapeString (c # cs) =
     (if (of_char c :: nat) < 0x80 then
        (if htmlSafe c then c # escapeString cs else escapeByte c @ escapeString cs)
      else
        (let r = DecodeRune (of_char c) (map of_char (take 3 cs)) in
         if fst r = RuneError \<and> snd r = 1 then
           [CHR 0x5C, CHR ''u'', CHR ''f'', CHR ''f'', CHR ''f'', CHR ''d''] @ escapeString cs
         else if fst r = 0x2028 \<or> fst r = 0x2029 then
           [CHR 0x5C, CHR ''u'', CHR ''2'', CHR ''0'', CHR ''2'', hex (fst r mod 16)]
             @ escapeString (drop (snd r - 1) cs)
         else c # take (snd r - 1) cs @ escapeString (drop (snd r - 1) cs)))"

definition appendString :: "string \<Rightarrow> string" where
  "appendString s = [CHR 0x22] @ escapeString s @ [CHR 0x22]"

definition appendBool :: "bool \<Rightarrow> string" where
  "appendBool b = (if b then ''true'' else ''false'')"

fun joinComma :: "string list \<Rightarrow> string" where
  "joinComma [] = []"
| "joinComma [x] = x"
| "joinComma (x # y # ys) = x @ '','' @ joinComma (y # ys)"

text \<open>
  A struct is written as an object of its exported fields, in the order of declaration,
  each under its name; a field tagged \<^verbatim>\<open>json:"-"\<close> is left out. The argument is the
  list of the fields written, each with its encoded value.
\<close>

definition structEncoder :: "(string \<times> string) list \<Rightarrow> string" where
  "structEncoder fs =
     ''{'' @ joinComma (map (\<lambda>(name, v). appendString name @ '':'' @ v) fs) @ ''}''"

definition marshalAuthentication :: "Authentication \<Rightarrow> string" where
  "marshalAuthentication a = structEncoder [(''Active'', appendBool (auth_Active a))]"

definition marshalPrivacy :: "Privacy \<Rightarrow> string" where
  "marshalPrivacy p = structEncoder [(''Active'', appendBool (priv_Active p))]"

definition marshalSNMP :: "SNMP \<Rightarrow> string" where
  "marshalSNMP s = structEncoder
     [(''Version'', appendString (snmp_Version s)),
      (''Authentication'', marshalAuthentication (snmp_Authentication s)),
      (''Privacy'', marshalPrivacy (snmp_Privacy s))]"

definition marshalVersion :: "Version \<Rightarrow> string" where
  "marshalVersion v = structEncoder
     [(''RouterOS'', appendString (RouterOS v)),
      (''Bootloader'', appendString (Bootloader v)),
      (''Latest'', appendString (Latest v))]"

definition marshalDevice :: "Device \<Rightarrow> string" where
  "marshalDevice d = structEncoder
     [(''Reached'', appendBool (Reached d)),
      (''Host'', appendString (Host d)),
      (''Model'', appendString (Model d)),
      (''Name'', appendString (Name d)),
      (''SNMP'', marshalSNMP (SNMP d)),
      (''Version'', marshalVersion (Version d))]"

text \<open>
  \<^verbatim>\<open>Devices\<close> is a slice: \<open>None\<close> is the nil slice, which is written \<^verbatim>\<open>null\<close>.
  Marshalling these types cannot fail, so the error branch of \<^verbatim>\<open>ResultJson\<close> is
  never taken.
\<close>

type_synonym Devices = "Device list option"

definition ResultJson :: "Devices \<Rightarrow> string" where
  "ResultJson devices =
     (case devices of
        None \<Rightarrow> ''null''
      | Some ds \<Rightarrow> ''['' @ joinComma (map marshalDevice ds) @ '']'')"

section \<open>Notions used by the properties\<close>

text \<open>
  Two records that differ at most in the fields tagged \<^verbatim>\<open>json:"-"\<close>: the community
  string and the protocol name and passphrase of the authentication and privacy blocks.
\<close>

definition sameExported :: "Device \<Rightarrow> Device \<Rightarrow> bool" where
  "sameExported d d' =
     (Reached d = Reached d' \<and> Host d = Host d' \<and> Model d = Model d' \<and> Name d = Name d' \<and>
      snmp_Version (SNMP d) = snmp_Version (SNMP d') \<and>
      auth_Active (snmp_Authentication (SNMP d)) = auth_Active (snmp_Authentication (SNMP d')) \<and>
      priv_Active (snmp_Privacy (SNMP d)) = priv_Active (snmp_Privacy (SNMP d')) \<and>
      Version d = Version d')"

definition sameExportedAll :: "Devices \<Rightarrow> Devices \<Rightarrow> bool" where
  "sameExportedAll ds ds' =
     (case (ds, ds') of
        (None, None) \<Rightarrow> True
      | (Some xs, Some ys) \<Rightarrow> list_all2 sameExported xs ys
      | _ \<Rightarrow> False)"

text \<open>A field name as it stands in the output, between double quotes.\<close>

definition quoted :: "string \<Rightarrow> string" where
  "quoted name = [CHR 0x22] @ name @ [CHR 0x22]"

text \<open>
  The object of a record as the output is to show it: every field that is not a secret,
  under the name the struct declares for it, in the order of declaration.
\<close>

definition exportedObject :: "Device \<Rightarrow> string" where
  "exportedObject d =
     ''{'' @ quoted ''Reached'' @ '':'' @ appendBool (Reached d) @
     '','' @ quoted ''Host'' @ '':'' @ appendString (Host d) @
     '','' @ quoted ''Model'' @ '':'' @ appendString (Model d) @
     '','' @ quoted ''Name'' @ '':'' @ appendString (Name d) @
     '','' @ quoted ''SNMP'' @ '':'' @
       (''{'' @ quoted ''Version'' @ '':'' @ appendString (snmp_Version (SNMP d)) @
        '','' @ quoted ''Authentication'' @ '':'' @
          (''{'' @ quoted ''Active'' @ '':'' @ appendBool (auth_Active (snmp_Authentication (SNMP d))) @ ''}'') @
        '','' @ quoted ''Privacy'' @ '':'' @
          (''{'' @ quoted ''Active'' @ '':'' @ appendBool (priv_Active (snmp_Privacy (SNMP d))) @ ''}'') @
        ''}'') @
     '','' @ quoted ''Version'' @ '':'' @
       (''{'' @ quoted ''RouterOS'' @ '':'' @ appendString (RouterOS (Version d)) @
        '','' @ quoted ''Bootloader'' @ '':'' @ appendString (Bootloader (Version d)) @
        '','' @ quoted ''Latest'' @ '':'' @ appendString (Latest (Version d)) @
        ''}'') @
     ''}''"

text \<open>The text of the last variable of a response that carries a given address.\<close>

fun lastBytes :: "string \<Rightarrow> SnmpPDU list \<Rightarrow> string option" where
  "lastBytes a [] = None"
| "lastBytes a (v # vs) =
     (case lastBytes a vs of
        Some b \<Rightarrow> Some b
      | None \<Rightarrow> if pdu_Name v = a then assertBytes (pdu_Value v) else None)"

definition allBytes :: "SnmpPDU list \<Rightarrow> bool" where
  "allBytes vs = list_all (\<lambda>v. assertBytes (pdu_Value v) \<noteq> None) vs"

definition known :: "SnmpPDU \<Rightarrow> bool" where
  "known v = (pdu_Name v \<in> set oids)"

text \<open>The two devices of the configuration example of the README, as the loader yields them.\<close>

definition readmeDevice1 :: Device where
  "readmeDevice1 =
     \<lparr> Reached = False, Host = ''myhost.xxxxxxxx.xyz'', Model = [], Name = [],
       SNMP = \<lparr> snmp_Version = ''3'', snmp_Community = ''public'',
         snmp_Authentication = \<lparr> auth_Active = True, auth_Protocol = ''SHA1'',
           auth_Passphrase = ''MyVerySecurePassphrase'' \<rparr>,
         snmp_Privacy = \<lparr> priv_Active = True, priv_Protocol = ''DES'',
           priv_Passphrase = ''MyVerySecurePassphrase'' \<rparr> \<rparr>,
       Version = \<lparr> RouterOS = [], Bootloader = [], Latest = [] \<rparr> \<rparr>"

definition readmeDevice2 :: Device where
  "readmeDevice2 =
     \<lparr> Reached = False, Host = ''myhost2.xxxxxxxx.xyz'', Model = [], Name = [],
       SNMP = \<lparr> snmp_Version = ''2'', snmp_Community = ''public'',
         snmp_Authentication = \<lparr> auth_Active = False, auth_Protocol = [], auth_Passphrase = [] \<rparr>,
         snmp_Privacy = \<lparr> priv_Active = False, priv_Protocol = [], priv_Passphrase = [] \<rparr> \<rparr>,
       Version = \<lparr> RouterOS = [], Bootloader = [], Latest = [] \<rparr> \<rparr>"

text \<open>A response of a router to the batch request, with one variable more than was asked for.\<close>

definition routerResponse :: "SnmpPDU list" where
  "routerResponse =
     [\<lparr> pdu_Name = ''.1.3.6.1.4.1.14988.1.1.4.4.0'', pdu_Value = Bytes ''7.15.3'' \<rparr>,
      \<lparr> pdu_Name = ''.1.3.6.1.4.1.14988.1.1.7.4.0'', pdu_Value = Bytes ''7.15.2'' \<rparr>,
      \<lparr> pdu_Name = ''.1.3.6.1.4.1.14988.1.1.7.7.0'', pdu_Value = Bytes ''7.16'' \<rparr>,
      \<lparr> pdu_Name = ''.1.3.6.1.2.1.1.1.0'', pdu_Value = Bytes ''RouterOS RB1100'' \<rparr>,
      \<lparr> pdu_Name = ''.1.3.6.1.2.1.1.5.0'', pdu_Value = Bytes ''core-router'' \<rparr>,
      \<lparr> pdu_Name = ''.1.3.6.1.2.1.1.3.0'', pdu_Value = Bytes ''up'' \<rparr>]"

text \<open>
  The response of an agent that is not a router of this vendor: the three addresses of
  the vendor's subtree are answered with no-such-object, whose value is nil.
\<close>

definition foreignResponse :: "SnmpPDU list" where
  "foreignResponse =
     [\<lparr> pdu_Name = ''.1.3.6.1.4.1.14988.1.1.4.4.0'', pdu_Value = NilVal \<rparr>,
      \<lparr> pdu_Name = ''.1.3.6.1.4.1.14988.1.1.7.4.0'', pdu_Value = NilVal \<rparr>,
      \<lparr> pdu_Name = ''.1.3.6.1.4.1.14988.1.1.7.7.0'', pdu_Value = NilVal \<rparr>,
      \<lparr> pdu_Name = ''.1.3.6.1.2.1.1.1.0'', pdu_Value = Bytes ''Linux gw 5.10'' \<rparr>,
      \<lparr> pdu_Name = ''.1.3.6.1.2.1.1.5.0'', pdu_Value = Bytes ''gw'' \<rparr>]"

definition netOk :: "SnmpPDU list \<Rightarrow> Net" where
  "netOk vs = \<lparr> connectErr = None, getResult = Inr vs, closeErr = None \<rparr>"

definition netConnectFails :: "string \<Rightarrow> Net" where
  "netConnectFails e = \<lparr> connectErr = Some e, getResult = Inr [], closeErr = None \<rparr>"

definition netGetFails :: "string \<Rightarrow> Net" where
  "netGetFails e = \<lparr> connectErr = None, getResult = Inl e, closeErr = None \<rparr>"

section \<open>Properties of the session configuration\<close>

lemma SNMPConfigure_fields:
  "g_Target (SNMPConfigure d g) = Host d \<and> g_Community (SNMPConfigure d g) = snmp_Community (SNMP d) \<and>
   g_Timeout (SNMPConfigure d g) = 3000000000"
  by (simp add: SNMPConfigure_def configureVersion_def Let_def)

lemma SNMPConfigure_other_version:
  assumes "snmp_Version (SNMP d) \<noteq> ''2c''" and "snmp_Version (SNMP d) \<noteq> ''3''"
  shows "g_Version (SNMPConfigure d g) = g_Version g"
    and "g_MsgFlags (SNMPConfigure d g) = g_MsgFlags g"
    and "g_SecurityModel (SNMPConfigure d g) = g_SecurityModel g"
  using assms by (simp_all add: SNMPConfigure_def configureVersion_def Let_def)

text \<open>
  Claim C7. An authentication block whose protocol name is neither SHA1 nor MD5 resolves
  to the algorithm SHA, and a privacy block whose protocol name is neither DES nor AES
  resolves to the algorithm DES. Both functions are total, their result is never the
  zero value of the type, and the two defaults are different algorithms (the library's
  constants 3 and 2).
\<close>

theorem GetProtocol_default:
  "(auth_Protocol a \<notin> {''SHA1'', ''MD5''} \<longrightarrow> auth_GetProtocol a = SHA) \<and>
   (priv_Protocol p \<notin> {''DES'', ''AES''} \<longrightarrow> priv_GetProtocol p = DES) \<and>
   auth_GetProtocol a \<noteq> 0 \<and> priv_GetProtocol p \<noteq> 0 \<and>
   SHA = 3 \<and> DES = 2 \<and> SHA \<noteq> DES"
  by (simp add: auth_GetProtocol_def priv_GetProtocol_def SHA_def DES_def MD5_def AES_def)

theorem GetProtocol_default_witness:
  "auth_Protocol (snmp_Authentication (SNMP readmeDevice2)) \<notin> {''SHA1'', ''MD5''} \<and>
   auth_GetProtocol (snmp_Authentication (SNMP readmeDevice2)) = SHA \<and>
   priv_Protocol \<lparr> priv_Active = True, priv_Protocol = ''AES256'', priv_Passphrase = ''x'' \<rparr>
     \<notin> {''DES'', ''AES''} \<and>
   priv_GetProtocol \<lparr> priv_Active = True, priv_Protocol = ''AES256'', priv_Passphrase = ''x'' \<rparr> = DES"
  using GetProtocol_default [of "snmp_Authentication (SNMP readmeDevice2)"
      "\<lparr> priv_Active = True, priv_Protocol = ''AES256'', priv_Passphrase = ''x'' \<rparr>"]
  by (simp add: readmeDevice2_def)

text \<open>
  Claim C3, as stated, fails: the first device of the README with its version changed
  to 2c has authentication and privacy active, and on the fresh handle, which carries
  no security parameters, SNMPConfigure attaches the bundle built from the descriptor.
\<close>

theorem SNMPConfigure_2c_counterexample:
  "snmp_Version (SNMP (readmeDevice1\<lparr> SNMP := (SNMP readmeDevice1)\<lparr> snmp_Version := ''2c'' \<rparr> \<rparr>)) = ''2c'' \<and>
   g_SecurityParameters Default = None \<and>
   g_SecurityParameters
     (SNMPConfigure (readmeDevice1\<lparr> SNMP := (SNMP readmeDevice1)\<lparr> snmp_Version := ''2c'' \<rparr> \<rparr>) Default)
   = Some \<lparr> UserName = ''public'', AuthenticationProtocol = SHA,
            AuthenticationPassphrase = ''MyVerySecurePassphrase'', PrivacyProtocol = DES,
            PrivacyPassphrase = ''MyVerySecurePassphrase'' \<rparr>"
  by (simp add: SNMPConfigure_def readmeDevice1_def Default_def configureVersion_def buildUsm_def
      usmZero_def auth_GetProtocol_def priv_GetProtocol_def)

text \<open>
  Claim C3, amended. For a descriptor of version 2c, SNMPConfigure selects protocol
  version 2c and attaches a security-parameters bundle exactly when the authentication
  or the privacy block is active; the bundle is built from the descriptor, with the
  community string as user name. When neither block is active it attaches nothing and
  the security-parameters field of the handle keeps the value it had.
\<close>

theorem SNMPConfigure_2c:
  assumes "snmp_Version (SNMP d) = ''2c''"
  shows "g_Version (SNMPConfigure d g) = Version2c \<and>
         g_SecurityParameters (SNMPConfigure d g) =
           (if auth_Active (snmp_Authentication (SNMP d)) \<or> priv_Active (snmp_Privacy (SNMP d))
            then Some (buildUsm (SNMP d)) else g_SecurityParameters g) \<and>
         UserName (buildUsm (SNMP d)) = snmp_Community (SNMP d)"
  using assms by (simp add: SNMPConfigure_def configureVersion_def buildUsm_def Let_def)

theorem SNMPConfigure_2c_witness:
  "snmp_Version (SNMP (readmeDevice2\<lparr> SNMP := (SNMP readmeDevice2)\<lparr> snmp_Version := ''2c'' \<rparr> \<rparr>)) = ''2c'' \<and>
   g_Version (SNMPConfigure (readmeDevice2\<lparr> SNMP := (SNMP readmeDevice2)\<lparr> snmp_Version := ''2c'' \<rparr> \<rparr>) Default)
     = Version2c \<and>
   g_SecurityParameters
     (SNMPConfigure (readmeDevice2\<lparr> SNMP := (SNMP readmeDevice2)\<lparr> snmp_Version := ''2c'' \<rparr> \<rparr>) Default)
     = None"
  using SNMPConfigure_2c
    [of "readmeDevice2\<lparr> SNMP := (SNMP readmeDevice2)\<lparr> snmp_Version := ''2c'' \<rparr> \<rparr>" Default]
  by (simp add: readmeDevice2_def Default_def)

text \<open>
  Claim C6, as stated, fails in its second half: for a descriptor of version 3 with
  both blocks inactive the session does not carry version-only security. On the fresh
  handle, whose message flags ask for neither authentication nor privacy, SNMPConfigure
  sets the flags that require both.
\<close>

theorem SNMPConfigure_v3_inactive_counterexample:
  "snmp_Version (SNMP (readmeDevice2\<lparr> SNMP := (SNMP readmeDevice2)\<lparr> snmp_Version := ''3'' \<rparr> \<rparr>)) = ''3'' \<and>
   \<not> auth_Active (snmp_Authentication (SNMP (readmeDevice2\<lparr> SNMP := (SNMP readmeDevice2)\<lparr> snmp_Version := ''3'' \<rparr> \<rparr>))) \<and>
   \<not> priv_Active (snmp_Privacy (SNMP (readmeDevice2\<lparr> SNMP := (SNMP readmeDevice2)\<lparr> snmp_Version := ''3'' \<rparr> \<rparr>))) \<and>
   g_MsgFlags Default = NoAuthNoPriv \<and>
   g_MsgFlags (SNMPConfigure (readmeDevice2\<lparr> SNMP := (SNMP readmeDevice2)\<lparr> snmp_Version := ''3'' \<rparr> \<rparr>) Default)
     = AuthPriv"
  by (simp add: SNMPConfigure_def readmeDevice2_def Default_def configureVersion_def)

text \<open>
  Claim C6, amended. For a descriptor of version 3 whose authentication and privacy
  blocks are both inactive, SNMPConfigure attaches no security-parameters bundle (the
  field of the handle keeps the value it had) and selects protocol version 3 with the
  user security model; the message flags it sets are the ones that require
  authentication and privacy.
\<close>

theorem SNMPConfigure_v3_inactive:
  assumes "snmp_Version (SNMP d) = ''3''"
    and "\<not> auth_Active (snmp_Authentication (SNMP d))"
    and "\<not> priv_Active (snmp_Privacy (SNMP d))"
  shows "g_SecurityParameters (SNMPConfigure d g) = g_SecurityParameters g \<and>
         g_Version (SNMPConfigure d g) = Version3 \<and>
         g_SecurityModel (SNMPConfigure d g) = UserSecurityModel \<and>
         g_MsgFlags (SNMPConfigure d g) = AuthPriv"
  using assms by (simp add: SNMPConfigure_def configureVersion_def Let_def)

theorem SNMPConfigure_v3_inactive_witness:
  "g_SecurityParameters
     (SNMPConfigure (readmeDevice2\<lparr> SNMP := (SNMP readmeDevice2)\<lparr> snmp_Version := ''3'' \<rparr> \<rparr>) Default) = None \<and>
   g_Version
     (SNMPConfigure (readmeDevice2\<lparr> SNMP := (SNMP readmeDevice2)\<lparr> snmp_Version := ''3'' \<rparr> \<rparr>) Default) = Version3"
  using SNMPConfigure_v3_inactive
    [of "readmeDevice2\<lparr> SNMP := (SNMP readmeDevice2)\<lparr> snmp_Version := ''3'' \<rparr> \<rparr>" Default]
  by (simp add: readmeDevice2_def Default_def)

text \<open>
  Claim C9 at the configuration of the README. Its second device has the version
  string 2, which is neither 2c nor 3. Configured on the fresh handle, the session is
  version 2c without security parameters. Configured after the first device, as the
  README's loop does, the session keeps what the first device set: version 3, the
  flags that require authentication and privacy, and the first device's passphrases.
\<close>

theorem SNMPConfigure_unknown_version_after_v3:
  "snmp_Version (SNMP readmeDevice2) \<noteq> ''2c'' \<and> snmp_Version (SNMP readmeDevice2) \<noteq> ''3'' \<and>
   g_Version (SNMPConfigure readmeDevice2 Default) = Version2c \<and>
   g_MsgFlags (SNMPConfigure readmeDevice2 Default) = NoAuthNoPriv \<and>
   g_SecurityParameters (SNMPConfigure readmeDevice2 Default) = None \<and>
   g_Version (SNMPConfigure readmeDevice2 (SNMPConfigure readmeDevice1 Default)) = Version3 \<and>
   g_MsgFlags (SNMPConfigure readmeDevice2 (SNMPConfigure readmeDevice1 Default)) = AuthPriv \<and>
   g_SecurityParameters (SNMPConfigure readmeDevice2 (SNMPConfigure readmeDevice1 Default))
     = Some \<lparr> UserName = ''public'', AuthenticationProtocol = SHA,
              AuthenticationPassphrase = ''MyVerySecurePassphrase'', PrivacyProtocol = DES,
              PrivacyPassphrase = ''MyVerySecurePassphrase'' \<rparr>"
  by (simp add: SNMPConfigure_def readmeDevice1_def readmeDevice2_def Default_def
      configureVersion_def buildUsm_def usmZero_def auth_GetProtocol_def priv_GetProtocol_def)

section \<open>Properties of a poll\<close>

lemma GetDevice_connect_fails:
  assumes "connectErr net = Some e"
  shows "GetDevice net dev g =
    \<lparr> outcome = Returned (Some (''fehler beim Verbinden: '' @ e)), device = dev,
      handle = SNMPConfigure dev g, trace = [Connect] \<rparr>"
  using assms by (simp add: GetDevice_def)

lemma GetDevice_get_fails:
  assumes "connectErr net = None" and "getResult net = Inl e"
  shows "GetDevice net dev g =
    \<lparr> outcome = Returned (Some (Host dev @ '' Fehler bei der SNMP-Anfrage: '' @ e)), device = dev,
      handle = SNMPConfigure dev g, trace = [Connect, Get oids] @ closeConn net \<rparr>"
  using assms by (simp add: GetDevice_def)

lemma GetDevice_get_ok:
  assumes "connectErr net = None" and "getResult net = Inr vs"
  shows "GetDevice net dev g =
    \<lparr> outcome = (if fst (mapVariables vs (dev\<lparr> Reached := True \<rparr>) []) then Returned None else Panicked),
      device = fst (snd (mapVariables vs (dev\<lparr> Reached := True \<rparr>) [])),
      handle = SNMPConfigure dev g,
      trace = [Connect, Get oids] @ map Println (snd (snd (mapVariables vs (dev\<lparr> Reached := True \<rparr>) [])))
                @ closeConn net \<rparr>"
  using assms by (cases vs) (simp_all add: GetDevice_def Let_def)

lemma mapVariable_None_iff:
  "(mapVariable v d = None) = (assertBytes (pdu_Value v) = None)"
  by (simp add: mapVariable_def split: option.splits)

lemma mapVariable_Reached:
  "mapVariable v d = Some (d', ls) \<Longrightarrow> Reached d' = Reached d"
  by (auto simp: mapVariable_def split: option.splits if_splits)

text \<open>The loop leaves the flag alone, whether it runs to its end or panics.\<close>

lemma mapVariables_Reached:
  "Reached (fst (snd (mapVariables vs d out))) = Reached d"
proof (induction vs arbitrary: d out)
  case Nil
  show ?case by simp
next
  case (Cons v vs)
  show ?case
  proof (cases "mapVariable v d")
    case None
    then show ?thesis by simp
  next
    case (Some r)
    obtain d' ls where r: "r = (d', ls)" by (cases r)
    with Some Cons.IH [of d' "out @ ls"] mapVariable_Reached [of v d d' ls]
    show ?thesis by simp
  qed
qed

text \<open>The loop runs to its end exactly when every value is a byte slice.\<close>

lemma mapVariables_fst:
  "fst (mapVariables vs d out) = allBytes vs"
proof (induction vs arbitrary: d out)
  case Nil
  show ?case by (simp add: allBytes_def)
next
  case (Cons v vs)
  show ?case
  proof (cases "mapVariable v d")
    case None
    then have "assertBytes (pdu_Value v) = None"
      using mapVariable_None_iff [of v d] by simp
    with None show ?thesis by (simp add: allBytes_def)
  next
    case (Some r)
    obtain d' ls where r: "r = (d', ls)" by (cases r)
    from Some have "assertBytes (pdu_Value v) \<noteq> None"
      using mapVariable_None_iff [of v d] by simp
    with Some r Cons.IH [of d' "out @ ls"] show ?thesis by (simp add: allBytes_def)
  qed
qed

text \<open>At a panic the record is what the loop made of the variables before the offending one.\<close>

lemma mapVariables_takeWhile:
  "fst (snd (mapVariables vs d out)) =
   fst (snd (mapVariables (takeWhile (\<lambda>v. assertBytes (pdu_Value v) \<noteq> None) vs) d out))"
proof (induction vs arbitrary: d out)
  case Nil
  show ?case by simp
next
  case (Cons v vs)
  show ?case
  proof (cases "mapVariable v d")
    case None
    then have "assertBytes (pdu_Value v) = None"
      using mapVariable_None_iff [of v d] by simp
    with None show ?thesis by simp
  next
    case (Some r)
    obtain d' ls where r: "r = (d', ls)" by (cases r)
    from Some have "assertBytes (pdu_Value v) \<noteq> None"
      using mapVariable_None_iff [of v d] by simp
    with Some r Cons.IH [of d' "out @ ls"] show ?thesis by simp
  qed
qed

text \<open>
  Claim C2, as stated, fails for a record whose flag is already true when the poll
  starts (a record polled before, or loaded with the flag set): the connect step fails,
  no batch request is issued, and the flag is true after the poll.
\<close>

theorem GetDevice_Reached_counterexample:
  "Reached (device (GetDevice (netConnectFails ''i/o timeout'') (readmeDevice2\<lparr> Reached := True \<rparr>) Default)) \<and>
   trace (GetDevice (netConnectFails ''i/o timeout'') (readmeDevice2\<lparr> Reached := True \<rparr>) Default) = [Connect]"
  by (simp add: GetDevice_def netConnectFails_def)

text \<open>
  Claim C2, amended. After a poll, however it ends, the flag of the record is true if
  and only if it was true when the poll started or the batch request returned without
  an error. GetDevice never clears the flag. Hence for a record whose flag is false at
  the start the flag stays false on a connect failure and on a failure of the batch
  request, and it is true after a successful batch response, whatever variables the
  response holds.
\<close>

theorem GetDevice_Reached:
  "Reached (device (GetDevice net dev g)) =
     (Reached dev \<or> (connectErr net = None \<and> (\<exists>vs. getResult net = Inr vs)))"
proof (cases "connectErr net")
  case (Some e)
  then show ?thesis by (simp add: GetDevice_connect_fails)
next
  case None
  show ?thesis
  proof (cases "getResult net")
    case (Inl e)
    with None show ?thesis by (simp add: GetDevice_get_fails)
  next
    case (Inr vs)
    with None show ?thesis by (simp add: GetDevice_get_ok mapVariables_Reached)
  qed
qed

text \<open>
  Claim C4 at the first device of the README when the connect step fails with a
  time-out: the error returned is the fixed text followed by the text of the library's
  error, and the host of the device is not in it. The error of a failed batch request,
  in the next branch of the same function, starts with the host.
\<close>

theorem GetDevice_connect_error_message:
  "outcome (GetDevice (netConnectFails ''i/o timeout'') readmeDevice1 Default)
     = Returned (Some ''fehler beim Verbinden: i/o timeout'') \<and>
   \<not> strings_Contains ''fehler beim Verbinden: i/o timeout'' (Host readmeDevice1) \<and>
   outcome (GetDevice (netGetFails ''i/o timeout'') readmeDevice1 Default)
     = Returned (Some ''myhost.xxxxxxxx.xyz Fehler bei der SNMP-Anfrage: i/o timeout'')"
  by (simp add: GetDevice_def netConnectFails_def netGetFails_def readmeDevice1_def)

text \<open>
  Claim C10. Every branch of the mapping asserts the value to be a byte slice, and the
  assertion is unchecked. So after a successful batch request GetDevice returns, with
  no error, exactly when every value of the response is a byte slice. When some value
  has another dynamic type the call panics: it has no result, and the record is what
  the loop made of the variables before the first such value, so no later variable is
  mapped.
\<close>

theorem GetDevice_mapping_total_iff_bytes:
  assumes "connectErr net = None" and "getResult net = Inr vs"
  shows "(outcome (GetDevice net dev g) = Returned None) = allBytes vs \<and>
         (outcome (GetDevice net dev g) = Panicked) = (\<not> allBytes vs) \<and>
         device (GetDevice net dev g) =
           fst (snd (mapVariables (takeWhile (\<lambda>v. assertBytes (pdu_Value v) \<noteq> None) vs)
                       (dev\<lparr> Reached := True \<rparr>) []))"
  using assms mapVariables_takeWhile [of vs "dev\<lparr> Reached := True \<rparr>" "[]"]
  by (simp add: GetDevice_get_ok mapVariables_fst)

theorem GetDevice_mapping_total_iff_bytes_witness:
  "outcome (GetDevice (netOk foreignResponse) readmeDevice2 Default) = Panicked \<and>
   device (GetDevice (netOk foreignResponse) readmeDevice2 Default) = readmeDevice2\<lparr> Reached := True \<rparr> \<and>
   outcome (GetDevice (netOk routerResponse) readmeDevice2 Default) = Returned None"
  using GetDevice_mapping_total_iff_bytes [of "netOk foreignResponse" foreignResponse readmeDevice2 Default]
    GetDevice_mapping_total_iff_bytes [of "netOk routerResponse" routerResponse readmeDevice2 Default]
  by (simp add: netOk_def foreignResponse_def routerResponse_def allBytes_def)

section \<open>Properties of the mapping\<close>

lemma strings_Replace_absent:
  "\<not> strings_Contains s old \<Longrightarrow> strings_Replace s old new n = s"
proof (induction s old new n rule: strings_Replace.induct)
  case (1 s old new)
  show ?case by simp
next
  case (2 old new n)
  show ?case by simp
next
  case (3 c cs old new n)
  then show ?case by simp
qed

lemma prefix_append_short:
  assumes "prefix xs (ys @ zs)" and "length xs \<le> length ys"
  shows "prefix xs ys"
proof -
  have "prefix ys (ys @ zs)" by simp
  with assms show ?thesis using prefix_length_prefix [of xs "ys @ zs" ys] by blast
qed

lemma strings_Replace_first:
  assumes "old \<noteq> []" and "\<not> strings_Contains (a @ butlast old) old"
  shows "strings_Replace (a @ old @ b) old new 1 = a @ new @ b"
  using assms(2)
proof (induction a)
  case Nil
  from assms(1) obtain c cs where "old @ b = c # cs" by (cases old) auto
  moreover have "prefix old (old @ b)" by simp
  moreover have "drop (length old) (old @ b) = b" by simp
  ultimately show ?case by (metis One_nat_def append_Nil strings_Replace.simps(1,3))
next
  case (Cons c a)
  have np: "\<not> prefix old (c # a @ butlast old)" and nc: "\<not> strings_Contains (a @ butlast old) old"
    using Cons.prems by simp_all
  have "\<not> prefix old ((c # a) @ old @ b)"
  proof
    assume p: "prefix old ((c # a) @ old @ b)"
    have e: "butlast old @ [last old] = old"
      using assms(1) by simp
    have "(c # a @ butlast old) @ (last old # b) = (c # a) @ (butlast old @ [last old]) @ b"
      by simp
    then have "(c # a) @ old @ b = (c # a @ butlast old) @ (last old # b)"
      by (simp only: e)
    with p have "prefix old ((c # a @ butlast old) @ (last old # b))" by metis
    moreover have "length old \<le> length (c # a @ butlast old)" by simp
    ultimately have "prefix old (c # a @ butlast old)" by (rule prefix_append_short)
    with np show False by contradiction
  qed
  with Cons.IH [OF nc] show ?case by simp
qed

text \<open>
  Claim C8, as stated, fails for a system description that does not contain the
  literal: nothing is removed, and the model is the whole text.
\<close>

theorem model_strip_counterexample:
  "\<not> strings_Contains ''Linux gw 5.10'' ''RouterOS'' \<and>
   mapVariable \<lparr> pdu_Name = ''.1.3.6.1.2.1.1.1.0'', pdu_Value = Bytes ''Linux gw 5.10'' \<rparr> readmeDevice2
     = Some (readmeDevice2\<lparr> Model := ''Linux gw 5.10'' \<rparr>, [])"
  by (simp add: mapVariable_def)

text \<open>
  Claim C8, amended. For a value \<open>s\<close> at the address of the system description the
  model stored is \<open>strings.Replace(s, RouterOS, empty, 1)\<close>. When the text contains
  the literal, its first occurrence is cut out and everything before and after it,
  later occurrences and white space included, is kept as it is. When the text does not
  contain the literal it is stored unchanged. The text RouterOS RB1100 gives the model
  RB1100 with a leading space.
\<close>

theorem model_strips_first_RouterOS:
  "mapVariable \<lparr> pdu_Name = ''.1.3.6.1.2.1.1.1.0'', pdu_Value = Bytes s \<rparr> dev
     = Some (dev\<lparr> Model := strings_Replace s ''RouterOS'' [] 1 \<rparr>, []) \<and>
   (\<not> strings_Contains (a @ ''RouterO'') ''RouterOS'' \<longrightarrow>
      strings_Replace (a @ ''RouterOS'' @ b) ''RouterOS'' [] 1 = a @ b) \<and>
   (\<not> strings_Contains s ''RouterOS'' \<longrightarrow> strings_Replace s ''RouterOS'' [] 1 = s) \<and>
   strings_Replace ''RouterOS RB1100'' ''RouterOS'' [] 1 = '' RB1100''"
proof -
  have 1: "mapVariable \<lparr> pdu_Name = ''.1.3.6.1.2.1.1.1.0'', pdu_Value = Bytes s \<rparr> dev
     = Some (dev\<lparr> Model := strings_Replace s ''RouterOS'' [] 1 \<rparr>, [])"
    by (simp add: mapVariable_def)
  have 2: "\<not> strings_Contains (a @ ''RouterO'') ''RouterOS'' \<longrightarrow>
      strings_Replace (a @ ''RouterOS'' @ b) ''RouterOS'' [] 1 = a @ b"
    using strings_Replace_first [of "''RouterOS''" a b "[]"] by simp
  have 3: "\<not> strings_Contains s ''RouterOS'' \<longrightarrow> strings_Replace s ''RouterOS'' [] 1 = s"
    by (simp add: strings_Replace_absent)
  have 4: "strings_Replace ''RouterOS RB1100'' ''RouterOS'' [] 1 = '' RB1100''"
    by simp
  from 1 2 3 4 show ?thesis by blast
qed

theorem model_strips_first_RouterOS_witness:
  "\<not> strings_Contains (''MikroTik '' @ ''RouterO'') ''RouterOS'' \<and>
   strings_Replace (''MikroTik '' @ ''RouterOS'' @ '' on RouterOS'') ''RouterOS'' [] 1
     = ''MikroTik  on RouterOS'' \<and>
   \<not> strings_Contains ''Linux gw 5.10'' ''RouterOS'' \<and>
   strings_Replace ''Linux gw 5.10'' ''RouterOS'' [] 1 = ''Linux gw 5.10''"
  using model_strips_first_RouterOS [of "''Linux gw 5.10''" readmeDevice2 "''MikroTik ''" "'' on RouterOS''"]
  by simp

lemma mapVariable_Bytes:
  assumes "pdu_Value v = Bytes b"
  shows "\<exists>ls. mapVariable v d = Some
    (d\<lparr> Version := (Version d)
          \<lparr> RouterOS := (if pdu_Name v = ''.1.3.6.1.4.1.14988.1.1.4.4.0'' then b else RouterOS (Version d)),
            Bootloader := (if pdu_Name v = ''.1.3.6.1.4.1.14988.1.1.7.4.0'' then b else Bootloader (Version d)),
            Latest := (if pdu_Name v = ''.1.3.6.1.4.1.14988.1.1.7.7.0'' then b else Latest (Version d)) \<rparr>,
        Model := (if pdu_Name v = ''.1.3.6.1.2.1.1.1.0'' then strings_Replace b ''RouterOS'' [] 1 else Model d),
        Name := (if pdu_Name v = ''.1.3.6.1.2.1.1.5.0'' then b else Name d) \<rparr>, ls)"
  using assms by (simp add: mapVariable_def)

lemma mapVariable_unknown:
  assumes "pdu_Value v = Bytes b" and "\<not> known v"
  shows "\<exists>ls. mapVariable v d = Some (d, ls)"
  using assms by (simp add: mapVariable_def known_def oids_def)

lemma allBytes_Cons:
  "allBytes (v # vs) = ((\<exists>b. pdu_Value v = Bytes b) \<and> allBytes vs)"
  by (cases "pdu_Value v") (simp_all add: allBytes_def)


lemma mapVariables_fields:
  assumes "allBytes vs"
  shows "RouterOS (Version (fst (snd (mapVariables vs d out)))) =
           (case lastBytes ''.1.3.6.1.4.1.14988.1.1.4.4.0'' vs of None \<Rightarrow> RouterOS (Version d) | Some b \<Rightarrow> b)"
    and "Bootloader (Version (fst (snd (mapVariables vs d out)))) =
           (case lastBytes ''.1.3.6.1.4.1.14988.1.1.7.4.0'' vs of None \<Rightarrow> Bootloader (Version d) | Some b \<Rightarrow> b)"
    and "Latest (Version (fst (snd (mapVariables vs d out)))) =
           (case lastBytes ''.1.3.6.1.4.1.14988.1.1.7.7.0'' vs of None \<Rightarrow> Latest (Version d) | Some b \<Rightarrow> b)"
    and "Model (fst (snd (mapVariables vs d out))) =
           (case lastBytes ''.1.3.6.1.2.1.1.1.0'' vs of None \<Rightarrow> Model d
            | Some b \<Rightarrow> strings_Replace b ''RouterOS'' [] 1)"
    and "Name (fst (snd (mapVariables vs d out))) =
           (case lastBytes ''.1.3.6.1.2.1.1.5.0'' vs of None \<Rightarrow> Name d | Some b \<Rightarrow> b)"
    and "Host (fst (snd (mapVariables vs d out))) = Host d"
    and "SNMP (fst (snd (mapVariables vs d out))) = SNMP d"
  using assms
proof (induction vs arbitrary: d out)
  case Nil
  {
    case 1 show ?case by simp
  next
    case 2 show ?case by simp
  next
    case 3 show ?case by simp
  next
    case 4 show ?case by simp
  next
    case 5 show ?case by simp
  next
    case 6 show ?case by simp
  next
    case 7 show ?case by simp
  }
next
  case (Cons v vs)
  {
    case 1
    then obtain b where b: "pdu_Value v = Bytes b" and r: "allBytes vs"
      by (auto simp: allBytes_Cons)
    from mapVariable_Bytes [OF b, of d] obtain ls d' where
      m: "mapVariable v d = Some (d', ls)" and
      f: "RouterOS (Version d') = (if pdu_Name v = ''.1.3.6.1.4.1.14988.1.1.4.4.0'' then b else RouterOS (Version d))"
      by auto
    from Cons.IH(1) [OF r, of d' "out @ ls"] m f b show ?case
      by (simp split: option.splits)
  next
    case 2
    then obtain b where b: "pdu_Value v = Bytes b" and r: "allBytes vs"
      by (auto simp: allBytes_Cons)
    from mapVariable_Bytes [OF b, of d] obtain ls d' where
      m: "mapVariable v d = Some (d', ls)" and
      f: "Bootloader (Version d') = (if pdu_Name v = ''.1.3.6.1.4.1.14988.1.1.7.4.0'' then b else Bootloader (Version d))"
      by auto
    from Cons.IH(2) [OF r, of d' "out @ ls"] m f b show ?case
      by (simp split: option.splits)
  next
    case 3
    then obtain b where b: "pdu_Value v = Bytes b" and r: "allBytes vs"
      by (auto simp: allBytes_Cons)
    from mapVariable_Bytes [OF b, of d] obtain ls d' where
      m: "mapVariable v d = Some (d', ls)" and
      f: "Latest (Version d') = (if pdu_Name v = ''.1.3.6.1.4.1.14988.1.1.7.7.0'' then b else Latest (Version d))"
      by auto
    from Cons.IH(3) [OF r, of d' "out @ ls"] m f b show ?case
      by (simp split: option.splits)
  next
    case 4
    then obtain b where b: "pdu_Value v = Bytes b" and r: "allBytes vs"
      by (auto simp: allBytes_Cons)
    from mapVariable_Bytes [OF b, of d] obtain ls d' where
      m: "mapVariable v d = Some (d', ls)" and
      f: "Model d' = (if pdu_Name v = ''.1.3.6.1.2.1.1.1.0'' then strings_Replace b ''RouterOS'' [] 1 else Model d)"
      by auto
    from Cons.IH(4) [OF r, of d' "out @ ls"] m f b show ?case
      by (simp split: option.splits)
  next
    case 5
    then obtain b where b: "pdu_Value v = Bytes b" and r: "allBytes vs"
      by (auto simp: allBytes_Cons)
    from mapVariable_Bytes [OF b, of d] obtain ls d' where
      m: "mapVariable v d = Some (d', ls)" and
      f: "Name d' = (if pdu_Name v = ''.1.3.6.1.2.1.1.5.0'' then b else Name d)"
      by auto
    from Cons.IH(5) [OF r, of d' "out @ ls"] m f b show ?case
      by (simp split: option.splits)
  next
    case 6
    then obtain b where b: "pdu_Value v = Bytes b" and r: "allBytes vs"
      by (auto simp: allBytes_Cons)
    from mapVariable_Bytes [OF b, of d] obtain ls d' where
      m: "mapVariable v d = Some (d', ls)" and f: "Host d' = Host d"
      by auto
    from Cons.IH(6) [OF r, of d' "out @ ls"] m f show ?case by simp
  next
    case 7
    then obtain b where b: "pdu_Value v = Bytes b" and r: "allBytes vs"
      by (auto simp: allBytes_Cons)
    from mapVariable_Bytes [OF b, of d] obtain ls d' where
      m: "mapVariable v d = Some (d', ls)" and f: "SNMP d' = SNMP d"
      by auto
    from Cons.IH(7) [OF r, of d' "out @ ls"] m f show ?case by simp
  }
qed

lemma mapVariables_filter_known:
  assumes "allBytes vs"
  shows "fst (snd (mapVariables (filter known vs) d out)) = fst (snd (mapVariables vs d out'))"
  using assms
proof (induction vs arbitrary: d out out')
  case Nil
  show ?case by simp
next
  case (Cons v vs)
  then obtain b where b: "pdu_Value v = Bytes b" and r: "allBytes vs"
    by (auto simp: allBytes_Cons)
  show ?case
  proof (cases "known v")
    case True
    from mapVariable_Bytes [OF b, of d] obtain ls d' where m: "mapVariable v d = Some (d', ls)"
      by blast
    with True Cons.IH [OF r, of d' "out @ ls" "out' @ ls"] show ?thesis by simp
  next
    case False
    from mapVariable_unknown [OF b False, of d] obtain ls where m: "mapVariable v d = Some (d, ls)"
      by blast
    with False Cons.IH [OF r, of d out "out' @ ls"] show ?thesis by simp
  qed
qed

lemma lastBytes_Some:
  assumes "allBytes vs" and "a \<in> pdu_Name ` set vs"
  shows "\<exists>b. lastBytes a vs = Some b"
  using assms
proof (induction vs)
  case Nil
  then show ?case by simp
next
  case (Cons v vs)
  then obtain b where b: "pdu_Value v = Bytes b" and r: "allBytes vs"
    by (auto simp: allBytes_Cons)
  show ?case
  proof (cases "lastBytes a vs")
    case (Some x)
    then show ?thesis by simp
  next
    case None
    with Cons.IH [OF r] have "a \<notin> pdu_Name ` set vs" by auto
    with Cons.prems(2) have "pdu_Name v = a" by auto
    with None b show ?thesis by simp
  qed
qed

text \<open>
  Claim C5, as stated, fails when a value of the response is not a byte slice. The
  response of an agent of another vendor holds all five addresses, three of them with
  the nil value of no-such-object; the batch request succeeds, GetDevice panics at the
  first variable and returns nothing, and the name, which the response does carry, is
  not stored.
\<close>

theorem GetDevice_five_addresses_counterexample:
  "connectErr (netOk foreignResponse) = None \<and>
   getResult (netOk foreignResponse) = Inr foreignResponse \<and>
   set oids \<subseteq> pdu_Name ` set foreignResponse \<and>
   outcome (GetDevice (netOk foreignResponse) readmeDevice2 Default) = Panicked \<and>
   Name (device (GetDevice (netOk foreignResponse) readmeDevice2 Default)) = []"
  by (simp add: netOk_def foreignResponse_def oids_def GetDevice_def mapVariable_def readmeDevice2_def)

text \<open>
  Claim C5, amended. For a batch response that succeeds, holds all five addresses and
  has only byte slices as values, GetDevice returns no error, the flag is true, and the
  firmware, bootloader and latest version and the name are the text of the last
  variable with the respective address, the model is that text of the system
  description with the first RouterOS cut out; host and SNMP settings are unchanged. A
  variable with an address outside the five changes nothing in the record: the record
  is the same as when the response is restricted to the five addresses.
\<close>

theorem GetDevice_five_addresses:
  assumes "connectErr net = None" and "getResult net = Inr vs"
    and "allBytes vs" and "set oids \<subseteq> pdu_Name ` set vs"
  shows "outcome (GetDevice net dev g) = Returned None \<and>
         Reached (device (GetDevice net dev g)) \<and>
         lastBytes ''.1.3.6.1.4.1.14988.1.1.4.4.0'' vs = Some (RouterOS (Version (device (GetDevice net dev g)))) \<and>
         lastBytes ''.1.3.6.1.4.1.14988.1.1.7.4.0'' vs = Some (Bootloader (Version (device (GetDevice net dev g)))) \<and>
         lastBytes ''.1.3.6.1.4.1.14988.1.1.7.7.0'' vs = Some (Latest (Version (device (GetDevice net dev g)))) \<and>
         (\<exists>b. lastBytes ''.1.3.6.1.2.1.1.1.0'' vs = Some b \<and>
              Model (device (GetDevice net dev g)) = strings_Replace b ''RouterOS'' [] 1) \<and>
         lastBytes ''.1.3.6.1.2.1.1.5.0'' vs = Some (Name (device (GetDevice net dev g))) \<and>
         Host (device (GetDevice net dev g)) = Host dev \<and>
         SNMP (device (GetDevice net dev g)) = SNMP dev \<and>
         device (GetDevice (net\<lparr> getResult := Inr (filter known vs) \<rparr>) dev g) = device (GetDevice net dev g)"
proof -
  let ?d1 = "dev\<lparr> Reached := True \<rparr>"
  let ?r = "fst (snd (mapVariables vs ?d1 []))"
  have dev: "device (GetDevice net dev g) = ?r"
    using assms(1,2) by (simp add: GetDevice_get_ok)
  have out: "outcome (GetDevice net dev g) = Returned None"
    using assms(1,2,3) by (simp add: GetDevice_get_ok mapVariables_fst)
  have reached: "Reached ?r" by (simp add: mapVariables_Reached)
  have "\<exists>b. lastBytes ''.1.3.6.1.4.1.14988.1.1.4.4.0'' vs = Some b"
    using assms(3,4) by (intro lastBytes_Some) (auto simp: oids_def)
  then have f1: "lastBytes ''.1.3.6.1.4.1.14988.1.1.4.4.0'' vs = Some (RouterOS (Version ?r))"
    using mapVariables_fields(1) [OF assms(3), of ?d1 "[]"] by auto
  have "\<exists>b. lastBytes ''.1.3.6.1.4.1.14988.1.1.7.4.0'' vs = Some b"
    using assms(3,4) by (intro lastBytes_Some) (auto simp: oids_def)
  then have f2: "lastBytes ''.1.3.6.1.4.1.14988.1.1.7.4.0'' vs = Some (Bootloader (Version ?r))"
    using mapVariables_fields(2) [OF assms(3), of ?d1 "[]"] by auto
  have "\<exists>b. lastBytes ''.1.3.6.1.4.1.14988.1.1.7.7.0'' vs = Some b"
    using assms(3,4) by (intro lastBytes_Some) (auto simp: oids_def)
  then have f3: "lastBytes ''.1.3.6.1.4.1.14988.1.1.7.7.0'' vs = Some (Latest (Version ?r))"
    using mapVariables_fields(3) [OF assms(3), of ?d1 "[]"] by auto
  have "\<exists>b. lastBytes ''.1.3.6.1.2.1.1.1.0'' vs = Some b"
    using assms(3,4) by (intro lastBytes_Some) (auto simp: oids_def)
  then have f4: "\<exists>b. lastBytes ''.1.3.6.1.2.1.1.1.0'' vs = Some b \<and>
      Model ?r = strings_Replace b ''RouterOS'' [] 1"
    using mapVariables_fields(4) [OF assms(3), of ?d1 "[]"] by auto
  have "\<exists>b. lastBytes ''.1.3.6.1.2.1.1.5.0'' vs = Some b"
    using assms(3,4) by (intro lastBytes_Some) (auto simp: oids_def)
  then have f5: "lastBytes ''.1.3.6.1.2.1.1.5.0'' vs = Some (Name ?r)"
    using mapVariables_fields(5) [OF assms(3), of ?d1 "[]"] by auto
  have f6: "Host ?r = Host dev" and f7: "SNMP ?r = SNMP dev"
    using mapVariables_fields(6,7) [OF assms(3), of ?d1 "[]"] by simp_all
  have "device (GetDevice (net\<lparr> getResult := Inr (filter known vs) \<rparr>) dev g)
          = fst (snd (mapVariables (filter known vs) ?d1 []))"
    using assms(1) by (simp add: GetDevice_get_ok)
  also have "\<dots> = ?r" using assms(3) by (rule mapVariables_filter_known)
  finally have f8: "device (GetDevice (net\<lparr> getResult := Inr (filter known vs) \<rparr>) dev g) = ?r" .
  from out reached f1 f2 f3 f4 f5 f6 f7 f8 show ?thesis
    unfolding dev by blast
qed

theorem GetDevice_five_addresses_witness:
  "allBytes routerResponse \<and> set oids \<subseteq> pdu_Name ` set routerResponse \<and>
   outcome (GetDevice (netOk routerResponse) readmeDevice2 Default) = Returned None \<and>
   Reached (device (GetDevice (netOk routerResponse) readmeDevice2 Default)) \<and>
   RouterOS (Version (device (GetDevice (netOk routerResponse) readmeDevice2 Default))) = ''7.15.3'' \<and>
   Model (device (GetDevice (netOk routerResponse) readmeDevice2 Default)) = '' RB1100'' \<and>
   Name (device (GetDevice (netOk routerResponse) readmeDevice2 Default)) = ''core-router''"
proof -
  have h: "connectErr (netOk routerResponse) = None" "getResult (netOk routerResponse) = Inr routerResponse"
    "allBytes routerResponse" "set oids \<subseteq> pdu_Name ` set routerResponse"
    by (simp_all add: netOk_def routerResponse_def allBytes_def oids_def)
  note t = GetDevice_five_addresses [OF h, of readmeDevice2 Default]
  have l1: "lastBytes ''.1.3.6.1.4.1.14988.1.1.4.4.0'' routerResponse = Some ''7.15.3''"
    by (simp add: routerResponse_def)
  have l4: "lastBytes ''.1.3.6.1.2.1.1.1.0'' routerResponse = Some ''RouterOS RB1100''"
    by (simp add: routerResponse_def)
  have l5: "lastBytes ''.1.3.6.1.2.1.1.5.0'' routerResponse = Some ''core-router''"
    by (simp add: routerResponse_def)
  have r: "strings_Replace ''RouterOS RB1100'' ''RouterOS'' [] 1 = '' RB1100''"
    by simp
  from t have "outcome (GetDevice (netOk routerResponse) readmeDevice2 Default) = Returned None"
    and "Reached (device (GetDevice (netOk routerResponse) readmeDevice2 Default))"
    by blast+
  moreover from t l1
  have "RouterOS (Version (device (GetDevice (netOk routerResponse) readmeDevice2 Default))) = ''7.15.3''"
    by simp
  moreover from t l4 r
  have "Model (device (GetDevice (netOk routerResponse) readmeDevice2 Default)) = '' RB1100''"
    by auto
  moreover from t l5
  have "Name (device (GetDevice (netOk routerResponse) readmeDevice2 Default)) = ''core-router''"
    by simp
  ultimately show ?thesis using h(3,4) by blast
qed

section \<open>Properties of the serialized output\<close>

lemma marshalDevice_sameExported:
  assumes "sameExported d d'"
  shows "marshalDevice d = marshalDevice d'"
  using assms
  by (simp add: sameExported_def marshalDevice_def marshalSNMP_def marshalAuthentication_def
      marshalPrivacy_def marshalVersion_def)

lemma map_marshalDevice_sameExported:
  assumes "list_all2 sameExported xs ys"
  shows "map marshalDevice xs = map marshalDevice ys"
  using assms by (induction rule: list_all2_induct) (simp_all add: marshalDevice_sameExported)

lemma appendString_names:
  "appendString ''Reached'' = quoted ''Reached''"
  "appendString ''Host'' = quoted ''Host''"
  "appendString ''Model'' = quoted ''Model''"
  "appendString ''Name'' = quoted ''Name''"
  "appendString ''SNMP'' = quoted ''SNMP''"
  "appendString ''Version'' = quoted ''Version''"
  "appendString ''Authentication'' = quoted ''Authentication''"
  "appendString ''Privacy'' = quoted ''Privacy''"
  "appendString ''Active'' = quoted ''Active''"
  "appendString ''RouterOS'' = quoted ''RouterOS''"
  "appendString ''Bootloader'' = quoted ''Bootloader''"
  "appendString ''Latest'' = quoted ''Latest''"
  by (simp_all add: appendString_def quoted_def htmlSafe_def)

lemma marshalDevice_exportedObject:
  "marshalDevice d = exportedObject d"
  by (simp add: marshalDevice_def marshalSNMP_def marshalAuthentication_def marshalPrivacy_def
      marshalVersion_def structEncoder_def exportedObject_def appendString_names)

lemma strings_Contains_append:
  "strings_Contains (p @ x @ s) x"
proof (induction p)
  case Nil
  show ?case
  proof (cases "x @ s")
    case Nil
    then show ?thesis by simp
  next
    case (Cons c cs)
    have "prefix x (x @ s)" by simp
    with Cons show ?thesis by simp
  qed
next
  case (Cons c p)
  then show ?case by simp
qed

lemma joinComma_mem:
  assumes "x \<in> set xs"
  shows "\<exists>p s. joinComma xs = p @ x @ s"
  using assms
proof (induction xs rule: joinComma.induct)
  case 1
  then show ?case by simp
next
  case (2 y)
  then have "joinComma [y] = [] @ x @ []" by simp
  then show ?case by blast
next
  case (3 y z zs)
  show ?case
  proof (cases "x = y")
    case True
    then have "joinComma (y # z # zs) = [] @ x @ ('','' @ joinComma (z # zs))" by simp
    then show ?thesis by blast
  next
    case False
    with 3 obtain p s where "joinComma (z # zs) = p @ x @ s" by auto
    then have "joinComma (y # z # zs) = (y @ '','' @ p) @ x @ s" by simp
    then show ?thesis by blast
  qed
qed

text \<open>
  Claim C1, as stated, fails in its first reading: the output can contain the text of
  a secret. The second device of the README, reached under a host name that begins
  with its community string, is written with that host name, and so the community
  string is a part of the output.
\<close>

theorem ResultJson_contains_secret_counterexample:
  "snmp_Community (SNMP (readmeDevice2\<lparr> Host := ''public.example.net'' \<rparr>)) = ''public'' \<and>
   strings_Contains (ResultJson (Some [readmeDevice2\<lparr> Host := ''public.example.net'' \<rparr>]))
     (snmp_Community (SNMP (readmeDevice2\<lparr> Host := ''public.example.net'' \<rparr>)))"
  by (simp add: readmeDevice2_def ResultJson_def marshalDevice_def structEncoder_def
      appendString_def appendBool_def marshalSNMP_def marshalVersion_def marshalAuthentication_def
      marshalPrivacy_def htmlSafe_def)

text \<open>
  Claim C1, amended. The output of ResultJson does not depend on the secret fields:
  two lists of records that differ at most in the community string and in the protocol
  names and passphrases of the authentication and privacy blocks are written to the
  same string. Every other field of a record is written under its declared name: the
  output contains, for each record of the list, the object that shows these fields by
  name and no others.
\<close>

theorem ResultJson_hides_secrets:
  assumes "sameExportedAll ds ds'"
  shows "ResultJson ds = ResultJson ds' \<and>
         (\<forall>xs d. ds = Some xs \<and> d \<in> set xs \<longrightarrow> strings_Contains (ResultJson ds) (exportedObject d))"
proof
  show "ResultJson ds = ResultJson ds'"
  proof (cases ds)
    case None
    with assms show ?thesis by (cases ds') (simp_all add: sameExportedAll_def)
  next
    case (Some xs)
    with assms obtain ys where "ds' = Some ys" and "list_all2 sameExported xs ys"
      by (cases ds') (simp_all add: sameExportedAll_def)
    with Some show ?thesis by (simp add: ResultJson_def map_marshalDevice_sameExported)
  qed
next
  show "\<forall>xs d. ds = Some xs \<and> d \<in> set xs \<longrightarrow> strings_Contains (ResultJson ds) (exportedObject d)"
  proof (intro allI impI)
    fix xs d
    assume a: "ds = Some xs \<and> d \<in> set xs"
    then have "marshalDevice d \<in> set (map marshalDevice xs)" by simp
    then obtain p s where "joinComma (map marshalDevice xs) = p @ marshalDevice d @ s"
      using joinComma_mem by blast
    then have "ResultJson ds = (''['' @ p) @ exportedObject d @ (s @ '']'')"
      using a by (simp add: ResultJson_def marshalDevice_exportedObject)
    then show "strings_Contains (ResultJson ds) (exportedObject d)"
      using strings_Contains_append [of "''['' @ p" "exportedObject d" "s @ '']''"] by simp
  qed
qed

theorem ResultJson_hides_secrets_witness:
  "sameExportedAll (Some [readmeDevice1])
     (Some [readmeDevice1\<lparr> SNMP := (SNMP readmeDevice1)
        \<lparr> snmp_Community := ''private'',
          snmp_Authentication := (snmp_Authentication (SNMP readmeDevice1))
            \<lparr> auth_Protocol := ''MD5'', auth_Passphrase := ''other'' \<rparr>,
          snmp_Privacy := (snmp_Privacy (SNMP readmeDevice1))
            \<lparr> priv_Protocol := ''AES'', priv_Passphrase := ''another'' \<rparr> \<rparr> \<rparr>]) \<and>
   ResultJson (Some [readmeDevice1]) =
   ResultJson (Some [readmeDevice1\<lparr> SNMP := (SNMP readmeDevice1)
        \<lparr> snmp_Community := ''private'',
          snmp_Authentication := (snmp_Authentication (SNMP readmeDevice1))
            \<lparr> auth_Protocol := ''MD5'', auth_Passphrase := ''other'' \<rparr>,
          snmp_Privacy := (snmp_Privacy (SNMP readmeDevice1))
            \<lparr> priv_Protocol := ''AES'', priv_Passphrase := ''another'' \<rparr> \<rparr> \<rparr>]) \<and>
   strings_Contains (ResultJson (Some [readmeDevice1])) (exportedObject readmeDevice1)"
proof -
  let ?d = "readmeDevice1\<lparr> SNMP := (SNMP readmeDevice1)
        \<lparr> snmp_Community := ''private'',
          snmp_Authentication := (snmp_Authentication (SNMP readmeDevice1))
            \<lparr> auth_Protocol := ''MD5'', auth_Passphrase := ''other'' \<rparr>,
          snmp_Privacy := (snmp_Privacy (SNMP readmeDevice1))
            \<lparr> priv_Protocol := ''AES'', priv_Passphrase := ''another'' \<rparr> \<rparr> \<rparr>"
  have h: "sameExportedAll (Some [readmeDevice1]) (Some [?d])"
    by (simp add: sameExportedAll_def sameExported_def)
  note t = ResultJson_hides_secrets [OF h]
  from t have e: "ResultJson (Some [readmeDevice1]) = ResultJson (Some [?d])" by (rule conjunct1)
  from t have "\<forall>xs d. Some [readmeDevice1] = Some xs \<and> d \<in> set xs \<longrightarrow>
      strings_Contains (ResultJson (Some [readmeDevice1])) (exportedObject d)" by (rule conjunct2)
  then have c: "strings_Contains (ResultJson (Some [readmeDevice1])) (exportedObject readmeDevice1)"
    by auto
  from h e c show ?thesis by blast
qed

end
